theory Spec2Isabelle
  imports Main "HOL-Library.Sublist"
begin

section \<open>Python values, exceptions and the world outside the function\<close>

text \<open>
  The values a request parameter can take: what a query string gives (a \<open>str\<close>) and the
  scalars of a parsed JSON body (\<open>None\<close>, \<open>bool\<close>, \<open>int\<close>, \<open>str\<close>). Strings are ASCII.
  Floating point numbers are left out of the value type.
\<close>

datatype pyval = PNone | PBool bool | PInt int | PStr string

text \<open>
  The exceptions of the model: \<open>int(s)\<close> of a string that is no literal, \<open>int(v)\<close> of a
  value that is no number, \<open>x in v\<close> on a value that is no container, a list or a string
  indexed by a string, a missing dictionary key, and anything raised by a library call
  (the request, the JSON parser, the secret store), which carries its text.
\<close>

datatype exn =
    ValueError_int string
  | TypeError_int pyval
  | TypeError_in pyval
  | TypeError_index
  | KeyError string
  | Raised string

text \<open>
  One answer of the \<open>files.delete\<close> endpoint, as \<open>loads(get(uri, params).text)\<close> and the
  lookup \<open>dresponse['ok']\<close> see it: the request, the parsing or the lookup raises, or there is
  an \<open>ok\<close> flag and possibly an \<open>error\<close> field.
\<close>

datatype outcome = Raises exn | Responds bool "string option"

text \<open>An entry of the \<open>files\<close> array of the listing response.\<close>

record raw_file =
  r_id :: string
  r_name :: string
  r_timestamp :: int
  r_mimetype :: string
  r_size :: int

text \<open>The dictionary that \<open>list_files\<close> builds for an entry it keeps.\<close>

record file_rec =
  f_id :: string
  f_name :: string
  f_timestamp :: string
  f_mimetype :: string
  f_size :: int

text \<open>
  Everything the function reads from outside: the three readings of the clock
  (\<open>current_timestamp()\<close> in the title, in the line of files found, in the summary), the
  rendering of a file's time, the rendering \<open>format(n/MBFACTOR, '.2f')\<close> of a byte count,
  \<open>int(time())\<close>, the text of the exceptions that Python itself raises, the environment
  variables, the secret store and the two endpoints. The \<open>n\<close>-th request to
  \<open>files.delete\<close> (from 0) is answered by \<open>files_delete n token file\<close>.
\<close>

record world =
  ts_title :: string
  ts_found :: string
  ts_report :: string
  localtime_str :: "int \<Rightarrow> string"
  mb_str :: "int \<Rightarrow> string"
  now :: int
  builtin_msg :: "exn \<Rightarrow> string"
  gcp_project :: "string option"
  slack_token_secret :: "string option"
  access_secret_version :: "string \<Rightarrow> exn + string"
  files_list :: "string \<Rightarrow> int \<Rightarrow> int \<Rightarrow> exn + raw_file list"
  files_delete :: "nat \<Rightarrow> string \<Rightarrow> string \<Rightarrow> outcome"

text \<open>
  \<open>str(e)\<close>: a \<open>KeyError\<close> shows its key in quotes, a library exception its text; the
  wording of the others is Python's.
\<close>

fun str_exn :: "world \<Rightarrow> exn \<Rightarrow> string" where
  "str_exn w (KeyError k) = [CHR 0x27] @ k @ [CHR 0x27]"
| "str_exn w (Raised m) = m"
| "str_exn w e = builtin_msg w e"

section \<open>Strings and integers\<close>

text \<open>\<open>s.replace('\n', '<br><br>')\<close>: the pattern is one character.\<close>

definition nl_to_br :: "string \<Rightarrow> string" where
  "nl_to_br s = concat (map (\<lambda>c. if c = CHR 0x0A then ''<br><br>'' else [c]) s)"

text \<open>
  \<open>s.replace(old, new)\<close> for any pattern: the occurrences of \<open>old\<close> are taken from the
  left and do not overlap; \<open>k\<close> counts the characters of an occurrence still to be skipped.
  With an empty pattern \<open>new\<close> is put before every character and at the end.
\<close>

fun replace_scan :: "string \<Rightarrow> string \<Rightarrow> nat \<Rightarrow> string \<Rightarrow> string" where
  "replace_scan old new k [] = []"
| "replace_scan old new k (c # s) =
     (if 0 < k then replace_scan old new (k - 1) s
      else if prefix old (c # s) then new @ replace_scan old new (length old - 1) s
      else c # replace_scan old new 0 s)"

definition py_replace :: "string \<Rightarrow> string \<Rightarrow> string \<Rightarrow> string" where
  "py_replace old new s =
     (if old = [] then new @ concat (map (\<lambda>c. c # new) s) else replace_scan old new 0 s)"

text \<open>\<open>str(n)\<close> of an integer.\<close>

definition digit_char :: "nat \<Rightarrow> char" where
  "digit_char d = char_of (48 + d)"

fun str_nat :: "nat \<Rightarrow> string" where
  "str_nat n = (if n < 10 then [digit_char n] else str_nat (n div 10) @ [digit_char (n mod 10)])"

declare str_nat.simps [simp del]

definition str_int :: "int \<Rightarrow> string" where
  "str_int i = (if i < 0 then CHR ''-'' # str_nat (nat (- i)) else str_nat (nat i))"

text \<open>
  \<open>int(s)\<close> of a string, base 10: white space is stripped at both ends, one sign may
  follow, then digits, where single underscores may stand between two digits. A limit on
  the number of digits is not modelled.
\<close>

definition py_isspace :: "char \<Rightarrow> bool" where
  "py_isspace c = (c \<in> set [CHR 0x09, CHR 0x0A, CHR 0x0B, CHR 0x0C, CHR 0x0D, CHR 0x20])"

definition is_digit :: "char \<Rightarrow> bool" where
  "is_digit c = (48 \<le> (of_char c :: nat) \<and> (of_char c :: nat) \<le> 57)"

definition digit_val :: "char \<Rightarrow> int" where
  "digit_val c = int (of_char c) - 48"

definition strip :: "string \<Rightarrow> string" where
  "strip s = rev (dropWhile py_isspace (rev (dropWhile py_isspace s)))"

fun scan_digits :: "int \<Rightarrow> bool \<Rightarrow> string \<Rightarrow> int option" where
  "scan_digits acc after_us [] = (if after_us then None else Some acc)"
| "scan_digits acc after_us (c # cs) =
     (if c = CHR ''_'' then (if after_us then None else scan_digits acc True cs)
      else if is_digit c then scan_digits (10 * acc + digit_val c) False cs
      else None)"

definition unsigned_literal :: "string \<Rightarrow> int option" where
  "unsigned_literal u =
     (case u of [] \<Rightarrow> None
      | c # cs \<Rightarrow> if is_digit c then scan_digits (digit_val c) False cs else None)"

definition py_int_str :: "string \<Rightarrow> int option" where
  "py_int_str s =
     (case strip s of
        [] \<Rightarrow> None
      | c # cs \<Rightarrow>
          if c = CHR ''+'' then unsigned_literal cs
          else if c = CHR ''-'' then map_option uminus (unsigned_literal cs)
          else unsigned_literal (c # cs))"

text \<open>
  \<open>int(v)\<close>: an \<open>int\<close> is itself, \<open>True\<close> is 1 and \<open>False\<close> is 0, a string is parsed
  (\<open>ValueError\<close> when it is no literal), \<open>None\<close> raises \<open>TypeError\<close>.
\<close>

fun py_int :: "pyval \<Rightarrow> exn + int" where
  "py_int (PInt n) = Inr n"
| "py_int (PBool b) = Inr (if b then 1 else 0)"
| "py_int (PStr s) = (case py_int_str s of Some n \<Rightarrow> Inr n | None \<Rightarrow> Inl (ValueError_int s))"
| "py_int PNone = Inl (TypeError_int PNone)"

text \<open>\<open>str(v)\<close>, as an f-string renders a value.\<close>

fun py_str :: "pyval \<Rightarrow> string" where
  "py_str PNone = ''None''"
| "py_str (PBool b) = (if b then ''True'' else ''False'')"
| "py_str (PInt n) = str_int n"
| "py_str (PStr s) = s"

text \<open>\<open>a in b\<close> for two strings: \<open>a\<close> occurs in \<open>b\<close> as a contiguous run.\<close>

definition str_in :: "string \<Rightarrow> string \<Rightarrow> bool" where
  "str_in a b = list_ex (\<lambda>i. take (length a) (drop i b) = a) [0 ..< Suc (length b)]"

section \<open>check_arg\<close>

text \<open>
  The request as \<open>check_arg\<close> reads it: \<open>request.args\<close>, the pairs of the query string in
  order (\<open>get\<close> gives the first value of a key), and the outcome of the call
  \<open>request.get_json()\<close>: it raises (the framework refuses a malformed JSON body), or it
  gives a scalar (\<open>None\<close> when there is no JSON body), a list or a dictionary.
\<close>

datatype body = JScalar pyval | JList "pyval list" | JDict "(string \<times> pyval) list"

record request =
  args :: "(string \<times> string) list"
  get_json :: "exn + body"

fun truthy :: "pyval \<Rightarrow> bool" where
  "truthy PNone = False"
| "truthy (PBool b) = b"
| "truthy (PInt n) = (n \<noteq> 0)"
| "truthy (PStr s) = (s \<noteq> [])"

fun body_truthy :: "body \<Rightarrow> bool" where
  "body_truthy (JScalar v) = truthy v"
| "body_truthy (JList l) = (l \<noteq> [])"
| "body_truthy (JDict d) = (d \<noteq> [])"

text \<open>\<open>arg_name in request_json\<close>.\<close>

fun body_contains :: "string \<Rightarrow> body \<Rightarrow> exn + bool" where
  "body_contains k (JDict d) = Inr (k \<in> set (map fst d))"
| "body_contains k (JList l) = Inr (PStr k \<in> set l)"
| "body_contains k (JScalar (PStr s)) = Inr (str_in k s)"
| "body_contains k (JScalar v) = Inl (TypeError_in v)"

text \<open>\<open>request_json[arg_name]\<close>.\<close>

fun body_index :: "body \<Rightarrow> string \<Rightarrow> exn + pyval" where
  "body_index (JDict d) k = (case map_of d k of Some v \<Rightarrow> Inr v | None \<Rightarrow> Inl (KeyError k))"
| "body_index (JList l) k = Inl TypeError_index"
| "body_index (JScalar v) k = Inl TypeError_index"

text \<open>The call \<open>request.get_json()\<close> comes first, before the query string is looked at.\<close>

definition check_arg :: "string \<Rightarrow> request \<Rightarrow> pyval \<Rightarrow> exn + pyval" where
  "check_arg arg_name request default_value =
     (case get_json request of
        Inl e \<Rightarrow> Inl e
      | Inr request_json \<Rightarrow>
          if args request \<noteq> [] \<and> arg_name \<in> set (map fst (args request))
          then (case map_of (args request) arg_name of
                  Some v \<Rightarrow> Inr (PStr v) | None \<Rightarrow> Inr PNone)
          else if \<not> body_truthy request_json then Inr default_value
          else (case body_contains arg_name request_json of
                  Inl e \<Rightarrow> Inl e
                | Inr True \<Rightarrow> body_index request_json arg_name
                | Inr False \<Rightarrow> Inr default_value))"

section \<open>list_files\<close>

definition calculate_days :: "world \<Rightarrow> pyval \<Rightarrow> exn + int" where
  "calculate_days w days =
     (case py_int days of Inl e \<Rightarrow> Inl e | Inr d \<Rightarrow> Inr (now w - d * 24 * 60 * 60))"

text \<open>
  \<open>mimetypes = ('document')\<close>: parentheses around one string without a trailing comma are
  no tuple, so the value is the string itself, and \<open>for mimetype in mimetypes\<close> runs over
  its characters, each a string of length one.
\<close>

definition mimetypes :: string where
  "mimetypes = ''document''"

definition iter_str :: "string \<Rightarrow> string list" where
  "iter_str s = map (\<lambda>c. [c]) s"

text \<open>\<open>any([mimetype in f['mimetype'] for mimetype in mimetypes])\<close>.\<close>

definition keep_file :: "raw_file \<Rightarrow> bool" where
  "keep_file f = list_ex (\<lambda>mimetype. str_in mimetype (r_mimetype f)) (iter_str mimetypes)"

definition reshape :: "world \<Rightarrow> raw_file \<Rightarrow> file_rec" where
  "reshape w f = \<lparr> f_id = r_id f, f_name = r_name f,
     f_timestamp = localtime_str w (r_timestamp f),
     f_mimetype = r_mimetype f, f_size = r_size f \<rparr>"

text \<open>The loop \<open>for f in resp\<close>.\<close>

fun collect_files :: "world \<Rightarrow> raw_file list \<Rightarrow> file_rec list" where
  "collect_files w [] = []"
| "collect_files w (f # resp) =
     (if keep_file f then reshape w f # collect_files w resp else collect_files w resp)"

text \<open>
  The dictionary \<open>params\<close> evaluates \<open>int(count)\<close> before \<open>calculate_days(days)\<close>; the
  request and the parsing of its answer may raise.
\<close>

definition list_files :: "world \<Rightarrow> string \<Rightarrow> pyval \<Rightarrow> pyval \<Rightarrow> exn + file_rec list" where
  "list_files w token days cnt =
     (case py_int cnt of Inl e \<Rightarrow> Inl e
      | Inr c \<Rightarrow>
        (case calculate_days w days of Inl e \<Rightarrow> Inl e
         | Inr ts_to \<Rightarrow>
           (case files_list w token c ts_to of Inl e \<Rightarrow> Inl e
            | Inr resp \<Rightarrow> Inr (collect_files w resp))))"

section \<open>delete_files\<close>

text \<open>
  The local variables of \<open>delete_files\<close>, and the requests sent to \<open>files.delete\<close> so far,
  each with its parameters \<open>token\<close> and \<open>file\<close>. What the function prints is not part of
  the state; of the arguments of \<open>print\<close> only \<open>dresponse['error']\<close> can raise, and that is
  modelled. The size of a file is an integer, as the listing gives it.
\<close>

record dstate =
  count :: int
  deleted_size :: int
  return_value :: string
  requests :: "(string \<times> string) list"

text \<open>\<open>count = 0\<close>, \<open>deleted_size = 0\<close>, \<open>return_value = ''\<close>, and no request sent yet.\<close>

definition initial_state :: dstate where
  "initial_state = \<lparr> count = 0, deleted_size = 0, return_value = [], requests = [] \<rparr>"

definition dry_run_message :: string where
  "dry_run_message = ''[i] DRY RUN, NO FILES DELETED'' @ [CHR 0x0A]"

text \<open>
  The loop \<open>for f in files\<close>. Both counters are incremented, then the request is sent. The
  result is the exception that ended the loop, if any, and the state reached. A response
  whose \<open>ok\<close> is false and that has no \<open>error\<close> field raises \<open>KeyError\<close> in the f-string.
\<close>

fun delete_loop :: "world \<Rightarrow> string \<Rightarrow> dstate \<Rightarrow> file_rec list \<Rightarrow> exn option \<times> dstate" where
  "delete_loop w token st [] = (None, st)"
| "delete_loop w token st (f # files) =
     (let st1 = st\<lparr> count := count st + 1, deleted_size := deleted_size st + f_size f \<rparr>;
          st2 = st1\<lparr> requests := requests st1 @ [(token, f_id f)] \<rparr>
      in case files_delete w (length (requests st1)) token (f_id f) of
           Raises e \<Rightarrow> (Some e, st2)
         | Responds ok err \<Rightarrow>
             if ok then delete_loop w token st2 files
             else (case err of
                     None \<Rightarrow> (Some (KeyError ''error''), st2)
                   | Some reason \<Rightarrow> delete_loop w token st2 files))"

definition summary_line :: "world \<Rightarrow> int \<Rightarrow> int \<Rightarrow> int \<Rightarrow> int \<Rightarrow> string" where
  "summary_line w fsize amount cnt dsize =
     ''[i] '' @ ts_report w @ '' Attempted to delete '' @ mb_str w fsize @ '' MB in ''
       @ str_int amount @ '' files, ''
       @ ''actually deleted '' @ str_int cnt @ '' files sized '' @ mb_str w dsize @ '' MB''"

text \<open>The \<open>try\<close> block: the exception raised in it, if any, and the state it leaves.\<close>

definition try_block :: "world \<Rightarrow> string \<Rightarrow> file_rec list \<Rightarrow> pyval \<Rightarrow> exn option \<times> dstate" where
  "try_block w token files view_only =
     (let st0 = initial_state
      in case py_int view_only of
           Inl e \<Rightarrow> (Some e, st0)
         | Inr v \<Rightarrow>
             if v = 1 then (None, st0\<lparr> return_value := return_value st0 @ dry_run_message \<rparr>)
             else delete_loop w token st0 files)"

text \<open>The \<open>except\<close> clause, when the \<open>try\<close> block raised.\<close>

definition except_clause :: "world \<Rightarrow> exn option \<times> dstate \<Rightarrow> dstate" where
  "except_clause w r =
     (case r of
        (None, st) \<Rightarrow> st
      | (Some e, st) \<Rightarrow>
          st\<lparr> return_value := return_value st @ ''<br><br>'' @ str_exn w e @ ''<br><br>'' \<rparr>)"

text \<open>
  The state when the \<open>finally\<close> clause has appended the summary. The clause runs on every
  way out of the \<open>try\<close> statement, also on the \<open>return\<close> of the dry run.
\<close>

definition delete_run :: "world \<Rightarrow> string \<Rightarrow> file_rec list \<Rightarrow> pyval \<Rightarrow> int \<Rightarrow> int \<Rightarrow> dstate" where
  "delete_run w token files view_only fsize amount =
     (let st = except_clause w (try_block w token files view_only)
      in st\<lparr> return_value := return_value st
                @ summary_line w fsize amount (count st) (deleted_size st) \<rparr>)"

text \<open>
  The value returned: the \<open>return\<close> statement of the \<open>finally\<close> clause replaces the value
  of the \<open>return\<close> in the \<open>try\<close> block.
\<close>

definition delete_files :: "world \<Rightarrow> string \<Rightarrow> file_rec list \<Rightarrow> pyval \<Rightarrow> int \<Rightarrow> int \<Rightarrow> string" where
  "delete_files w token files view_only fsize amount =
     nl_to_br (return_value (delete_run w token files view_only fsize amount))"

section \<open>main\<close>

definition env_str :: "string option \<Rightarrow> string" where
  "env_str v = (case v of None \<Rightarrow> ''None'' | Some s \<Rightarrow> s)"

definition resource_name :: "world \<Rightarrow> string" where
  "resource_name w = ''projects/'' @ env_str (gcp_project w) @ ''/secrets/''
     @ env_str (slack_token_secret w) @ ''/versions/latest''"

text \<open>\<open>main\<close> after its three calls of \<open>check_arg\<close>.\<close>

definition main_body :: "world \<Rightarrow> pyval \<Rightarrow> pyval \<Rightarrow> pyval \<Rightarrow> exn + string" where
  "main_body w days_count files_count dry_run =
     (let title_result = ''[i] '' @ ts_title w @ '' Deleting files older than ''
            @ py_str days_count @ '' days''
      in case access_secret_version w (resource_name w) of Inl e \<Rightarrow> Inl e
      | Inr slack_token \<Rightarrow>
     (case list_files w slack_token days_count files_count of Inl e \<Rightarrow> Inl e
      | Inr files \<Rightarrow>
     (let size_to_delete = sum_list (map f_size files);
          num_files = int (length files);
          files_found = ''[i] '' @ ts_found w @ '' Found '' @ str_int num_files
            @ '' files in '' @ mb_str w size_to_delete @ '' MB'';
          report = delete_files w slack_token files dry_run size_to_delete num_files
      in Inr (title_result @ ''<br><br>'' @ files_found @ ''<br><br>'' @ report))))"

definition main :: "world \<Rightarrow> request \<Rightarrow> exn + string" where
  "main w request =
     (case check_arg ''days'' request (PInt 30) of Inl e \<Rightarrow> Inl e
      | Inr days_count \<Rightarrow>
     (case check_arg ''count'' request (PInt 1000) of Inl e \<Rightarrow> Inl e
      | Inr files_count \<Rightarrow>
     (case check_arg ''just_a_test'' request (PInt 1) of Inl e \<Rightarrow> Inl e
      | Inr dry_run \<Rightarrow> main_body w days_count files_count dry_run)))"

section \<open>The statements of the specification\<close>

text \<open>
  The filter as the specification words it: an entry is kept if and only if its mimetype
  contains the word \<open>document\<close>.
\<close>

definition spec_keep_file :: "raw_file \<Rightarrow> bool" where
  "spec_keep_file f = str_in ''document'' (r_mimetype f)"

text \<open>
  Parameter resolution as the specification words it: the value of the query string, else
  the value of the JSON body, else the default.
\<close>

definition spec_param :: "string \<Rightarrow> request \<Rightarrow> pyval \<Rightarrow> pyval" where
  "spec_param name request default_value =
     (case map_of (args request) name of
        Some s \<Rightarrow> PStr s
      | None \<Rightarrow>
          (case get_json request of
             Inr (JDict d) \<Rightarrow> (case map_of d name of Some v \<Rightarrow> v | None \<Rightarrow> default_value)
           | _ \<Rightarrow> default_value))"

text \<open>The JSON body is a dictionary, or there is none (\<open>get_json()\<close> gives \<open>None\<close>).\<close>

fun object_or_none :: "body \<Rightarrow> bool" where
  "object_or_none (JDict d) = True"
| "object_or_none (JScalar PNone) = True"
| "object_or_none b = False"

text \<open>
  The call \<open>get_json()\<close> returns, and the parameter \<open>name\<close> is in the query string or the
  body is one in which a name can be looked up.
\<close>

definition resolvable :: "string \<Rightarrow> request \<Rightarrow> bool" where
  "resolvable name request =
     (case get_json request of
        Inl e \<Rightarrow> False
      | Inr b \<Rightarrow> name \<in> set (map fst (args request)) \<or> object_or_none b)"

text \<open>
  The \<open>n\<close>-th request, for file \<open>f\<close>, lets the loop go on: it raises nothing, and its
  response has what the loop reads.
\<close>

definition answered :: "world \<Rightarrow> string \<Rightarrow> nat \<Rightarrow> file_rec \<Rightarrow> bool" where
  "answered w token n f =
     (case files_delete w n token (f_id f) of
        Raises e \<Rightarrow> False
      | Responds ok err \<Rightarrow> ok \<or> err \<noteq> None)"

text \<open>Every request of the loop over \<open>files\<close> is answered.\<close>

definition all_answered :: "world \<Rightarrow> string \<Rightarrow> file_rec list \<Rightarrow> bool" where
  "all_answered w token files =
     list_all (\<lambda>i. answered w token i (files ! i)) [0 ..< length files]"

text \<open>The state when the loop, started in \<open>st\<close>, has gone through the files \<open>fs\<close>.\<close>

definition after :: "string \<Rightarrow> dstate \<Rightarrow> file_rec list \<Rightarrow> dstate" where
  "after token st fs =
     st\<lparr> count := count st + int (length fs),
        deleted_size := deleted_size st + sum_list (map f_size fs),
        requests := requests st @ map (\<lambda>f. (token, f_id f)) fs \<rparr>"

section \<open>A world and a request to evaluate the functions on\<close>

text \<open>
  A listing of four files; the first request to delete is refused, the second raises,
  any later one succeeds.
\<close>

definition listing0 :: "raw_file list" where
  "listing0 =
     [\<lparr> r_id = ''F1'', r_name = ''photo.png'', r_timestamp = 100,
        r_mimetype = ''image/png'', r_size = 1048576 \<rparr>,
      \<lparr> r_id = ''F2'', r_name = ''notes'', r_timestamp = 200,
        r_mimetype = ''application/vnd.slack-docs+document'', r_size = 524288 \<rparr>,
      \<lparr> r_id = ''F3'', r_name = ''clip.mp4'', r_timestamp = 300,
        r_mimetype = ''video/mp4'', r_size = 2097152 \<rparr>,
      \<lparr> r_id = ''F4'', r_name = ''raw'', r_timestamp = 400,
        r_mimetype = ''zip'', r_size = 7 \<rparr>]"

text \<open>
  The rendering \<open>format(n/MBFACTOR, '.2f')\<close> of a byte count \<open>n\<close> with \<open>0 \<le> n < 2^53\<close>,
  where the division is exact: hundredths of a megabyte, rounded half to even.
\<close>

definition hundredths :: "int \<Rightarrow> int" where
  "hundredths n =
     (let q = (n * 100) div 1048576; r = (n * 100) mod 1048576
      in if r > 524288 \<or> (r = 524288 \<and> odd q) then q + 1 else q)"

definition two_decimals :: "int \<Rightarrow> string" where
  "two_decimals n =
     (let h = hundredths n
      in str_int (h div 100) @ ''.'' @ str_int (h mod 100 div 10) @ str_int (h mod 10))"

definition world0 :: world where
  "world0 = \<lparr> ts_title = ''2020-01-01 10:00:00'', ts_found = ''2020-01-01 10:00:01'',
     ts_report = ''2020-01-01 10:00:02'',
     localtime_str = (\<lambda>t. str_int t),
     mb_str = two_decimals,
     now = 1577872800,
     builtin_msg = (\<lambda>e. case e of
        ValueError_int s \<Rightarrow>
          ''invalid literal for int() with base 10: '' @ [CHR 0x27] @ s @ [CHR 0x27]
      | _ \<Rightarrow> ''TypeError''),
     gcp_project = Some ''proj'', slack_token_secret = Some ''secret'',
     access_secret_version = (\<lambda>r. Inr ''xoxp''),
     files_list = (\<lambda>token c ts_to. Inr listing0),
     files_delete = (\<lambda>n token fid.
        if n = 0 then Responds False (Some ''file_not_found'')
        else if n = 1 then Raises (Raised ''timeout'')
        else Responds True None) \<rparr>"

text \<open>The same world with an endpoint that refuses every deletion.\<close>

definition world1 :: world where
  "world1 = world0 \<lparr> files_delete := (\<lambda>n token fid. Responds False (Some ''not_allowed'')) \<rparr>"

definition files0 :: "file_rec list" where
  "files0 = collect_files world0 listing0"

text \<open>
  A request with \<open>days\<close> in the query string and in the body, \<open>count\<close> in the body only
  and no \<open>just_a_test\<close>; requests with one parameter that is no number.
\<close>

definition request0 :: request where
  "request0 = \<lparr> args = [(''days'', ''7'')],
     get_json = Inr (JDict [(''days'', PInt 9), (''count'', PInt 5)]) \<rparr>"

definition request_bad_days :: request where
  "request_bad_days = \<lparr> args = [(''days'', ''week'')], get_json = Inr (JScalar PNone) \<rparr>"

definition request_bad_count :: request where
  "request_bad_count = \<lparr> args = [], get_json = Inr (JDict [(''count'', PStr ''all'')]) \<rparr>"

definition request_bad_flag :: request where
  "request_bad_flag =
     \<lparr> args = [(''just_a_test'', ''yes'')], get_json = Inr (JScalar PNone) \<rparr>"

text \<open>
  Requests whose JSON body is the number 5, the list \<open>["days"]\<close>, the string \<open>xdaysx\<close>,
  and a request with \<open>days\<close> in the query string whose body the framework refuses.
\<close>

definition request_number_body :: request where
  "request_number_body = \<lparr> args = [], get_json = Inr (JScalar (PInt 5)) \<rparr>"

definition request_list_body :: request where
  "request_list_body = \<lparr> args = [], get_json = Inr (JList [PStr ''days'']) \<rparr>"

definition request_string_body :: request where
  "request_string_body = \<lparr> args = [], get_json = Inr (JScalar (PStr ''xdaysx'')) \<rparr>"

definition request_malformed_body :: request where
  "request_malformed_body =
     \<lparr> args = [(''days'', ''7'')], get_json = Inl (Raised ''400 Bad Request'') \<rparr>"

section \<open>Replacing newlines\<close>

text \<open>\<open>nl_to_br\<close> is \<open>replace\<close> at the pattern of one newline.\<close>

lemma nl_to_br_is_replace: "nl_to_br s = py_replace [CHR 0x0A] ''<br><br>'' s"
  by (induction s) (simp_all add: nl_to_br_def py_replace_def)

lemma nl_to_br_append: "nl_to_br (a @ b) = nl_to_br a @ nl_to_br b"
  by (simp add: nl_to_br_def)

lemma nl_to_br_no_newline: "CHR 0x0A \<notin> set (nl_to_br s)"
  by (induction s) (auto simp: nl_to_br_def)

lemma nl_to_br_id: "CHR 0x0A \<notin> set s \<Longrightarrow> nl_to_br s = s"
  by (induction s) (auto simp: nl_to_br_def)

lemma nl_to_br_dry_run_message:
  "nl_to_br dry_run_message = ''[i] DRY RUN, NO FILES DELETED<br><br>''"
  by (simp add: nl_to_br_def dry_run_message_def)

lemma nl_to_br_breaks: "nl_to_br ''<br><br>'' = ''<br><br>''"
  by (simp add: nl_to_br_def)

section \<open>The dry run\<close>

lemma try_block_dry_run:
  "py_int view_only = Inr 1 \<Longrightarrow>
   try_block w token files view_only =
     (None, initial_state\<lparr> return_value := dry_run_message \<rparr>)"
  by (simp add: try_block_def initial_state_def)

lemma delete_run_dry_run:
  "py_int view_only = Inr 1 \<Longrightarrow>
   delete_run w token files view_only fsize amount =
     \<lparr> count = 0, deleted_size = 0,
       return_value = dry_run_message @ summary_line w fsize amount 0 0, requests = [] \<rparr>"
  by (simp add: delete_run_def try_block_dry_run except_clause_def initial_state_def)

text \<open>
  C1, as the code has it: when \<open>int(view_only)\<close> is 1, the report returned is not empty.
  The \<open>finally\<close> clause still runs after the \<open>return\<close> of the dry run and its own
  \<open>return\<close> gives the report: the dry-run notice, its newline turned into two line
  breaks, followed by the summary line with a deleted count and size of 0.
\<close>

theorem dry_run_report:
  "py_int view_only = Inr 1 \<Longrightarrow>
   delete_files w token files view_only fsize amount =
     ''[i] DRY RUN, NO FILES DELETED<br><br>'' @ nl_to_br (summary_line w fsize amount 0 0)"
  by (simp add: delete_files_def delete_run_dry_run nl_to_br_append nl_to_br_dry_run_message)

theorem dry_run_report_witness:
  "py_int (PStr ''1'') = Inr 1 \<and>
   delete_files world0 ''xoxp'' files0 (PStr ''1'') 3670016 3 =
     ''[i] DRY RUN, NO FILES DELETED<br><br>'' @ nl_to_br (summary_line world0 3670016 3 0 0)"
proof -
  have h: "py_int (PStr ''1'') = Inr 1" by code_simp
  show ?thesis using h dry_run_report [OF h] by simp
qed

text \<open>
  C1, as the specification states it, fails: a dry run over no files does not return the
  empty string.
\<close>

theorem dry_run_report_not_empty:
  "delete_files world0 ''xoxp'' [] (PInt 1) 0 0 \<noteq> []"
  by (simp add: delete_files_def delete_run_dry_run nl_to_br_append nl_to_br_dry_run_message)

section \<open>The loop over the files\<close>

lemma after_Nil: "after token st [] = st"
  by (simp add: after_def)

lemma after_Cons:
  "after token st (f # fs) =
     after token (st\<lparr> count := count st + 1, deleted_size := deleted_size st + f_size f,
                      requests := requests st @ [(token, f_id f)] \<rparr>) fs"
  by (simp add: after_def)

lemma delete_loop_step_answered:
  "answered w token (length (requests st)) f \<Longrightarrow>
   delete_loop w token st (f # fs) =
     delete_loop w token
       (st\<lparr> count := count st + 1, deleted_size := deleted_size st + f_size f,
            requests := requests st @ [(token, f_id f)] \<rparr>) fs"
  by (auto simp: answered_def Let_def split: outcome.splits option.splits)

lemma delete_loop_step_raises:
  "files_delete w (length (requests st)) token (f_id f) = Raises e \<Longrightarrow>
   delete_loop w token st (f # fs) = (Some e, after token st [f])"
  by (simp add: Let_def after_def)

lemma delete_loop_append:
  "\<forall>i<length xs. answered w token (length (requests st) + i) (xs ! i) \<Longrightarrow>
   delete_loop w token st (xs @ ys) = delete_loop w token (after token st xs) ys"
proof (induction xs arbitrary: st)
  case Nil
  show ?case by (simp add: after_Nil)
next
  case (Cons x xs)
  let ?st = "st\<lparr> count := count st + 1, deleted_size := deleted_size st + f_size x,
                  requests := requests st @ [(token, f_id x)] \<rparr>"
  from Cons.prems have hd: "answered w token (length (requests st)) x"
    by fastforce
  have tl: "\<forall>i<length xs. answered w token (length (requests ?st) + i) (xs ! i)"
  proof (intro allI impI)
    fix i assume "i < length xs"
    then have "Suc i < length (x # xs)" by simp
    with Cons.prems have "answered w token (length (requests st) + Suc i) ((x # xs) ! Suc i)"
      by blast
    then show "answered w token (length (requests ?st) + i) (xs ! i)" by simp
  qed
  have "delete_loop w token st ((x # xs) @ ys) = delete_loop w token ?st (xs @ ys)"
    using delete_loop_step_answered [OF hd] by simp
  also have "\<dots> = delete_loop w token (after token ?st xs) ys"
    by (rule Cons.IH [OF tl])
  finally show ?case by (simp add: after_Cons)
qed

lemma delete_loop_all_answered:
  "\<forall>i<length fs. answered w token (length (requests st) + i) (fs ! i) \<Longrightarrow>
   delete_loop w token st fs = (None, after token st fs)"
  using delete_loop_append [of fs w token st "[]"] by simp

lemma delete_loop_raises_at:
  assumes k: "k < length fs"
    and before: "\<forall>i<k. answered w token (length (requests st) + i) (fs ! i)"
    and at: "files_delete w (length (requests st) + k) token (f_id (fs ! k)) = Raises e"
  shows "delete_loop w token st fs = (Some e, after token st (take (Suc k) fs))"
proof -
  have split: "fs = take k fs @ fs ! k # drop (Suc k) fs"
    using k by (simp add: id_take_nth_drop)
  have pre: "\<forall>i<length (take k fs). answered w token (length (requests st) + i) (take k fs ! i)"
    using before k by simp
  have len: "length (requests (after token st (take k fs))) = length (requests st) + k"
    using k by (simp add: after_def)
  have "delete_loop w token st fs
        = delete_loop w token (after token st (take k fs)) (fs ! k # drop (Suc k) fs)"
    using delete_loop_append [OF pre, of "fs ! k # drop (Suc k) fs"] split by simp
  also have "\<dots> = (Some e, after token (after token st (take k fs)) [fs ! k])"
    by (rule delete_loop_step_raises) (simp add: len at)
  also have "after token (after token st (take k fs)) [fs ! k] = after token st (take (Suc k) fs)"
    using k by (simp add: after_def take_Suc_conv_app_nth)
  finally show ?thesis .
qed

lemma all_answered_iff:
  "all_answered w token fs \<longleftrightarrow> (\<forall>i<length fs. answered w token i (fs ! i))"
  by (auto simp: all_answered_def list_all_iff)

lemma delete_loop_step_stops:
  "\<not> answered w token (length (requests st)) f \<Longrightarrow>
   \<exists>e. delete_loop w token st (f # fs) = (Some e, after token st [f])"
  by (auto simp: answered_def Let_def after_def split: outcome.splits option.splits)

lemma delete_loop_stops_at:
  assumes k: "k < length fs"
    and before: "\<forall>i<k. answered w token (length (requests st) + i) (fs ! i)"
    and at: "\<not> answered w token (length (requests st) + k) (fs ! k)"
  shows "\<exists>e. delete_loop w token st fs = (Some e, after token st (take (Suc k) fs))"
proof -
  have split: "fs = take k fs @ fs ! k # drop (Suc k) fs"
    using k by (simp add: id_take_nth_drop)
  have pre: "\<forall>i<length (take k fs). answered w token (length (requests st) + i) (take k fs ! i)"
    using before k by simp
  have len: "length (requests (after token st (take k fs))) = length (requests st) + k"
    using k by (simp add: after_def)
  have step: "delete_loop w token st fs
        = delete_loop w token (after token st (take k fs)) (fs ! k # drop (Suc k) fs)"
    using delete_loop_append [OF pre, of "fs ! k # drop (Suc k) fs"] split by simp
  have "\<not> answered w token (length (requests (after token st (take k fs)))) (fs ! k)"
    using at by (simp add: len)
  from delete_loop_step_stops [OF this, of "drop (Suc k) fs"]
  obtain e where "delete_loop w token (after token st (take k fs)) (fs ! k # drop (Suc k) fs)
      = (Some e, after token (after token st (take k fs)) [fs ! k])" by blast
  moreover have "after token (after token st (take k fs)) [fs ! k] = after token st (take (Suc k) fs)"
    using k by (simp add: after_def take_Suc_conv_app_nth)
  ultimately show ?thesis using step by simp
qed

section \<open>The tally\<close>

lemma try_block_live:
  "py_int view_only = Inr v \<Longrightarrow> v \<noteq> 1 \<Longrightarrow>
   try_block w token files view_only = delete_loop w token initial_state files"
  by (simp add: try_block_def)

lemma after_initial:
  "after token initial_state fs =
     \<lparr> count = int (length fs), deleted_size = sum_list (map f_size fs),
       return_value = [], requests = map (\<lambda>f. (token, f_id f)) fs \<rparr>"
  by (simp add: after_def initial_state_def)

lemma try_block_all_answered:
  assumes "py_int view_only = Inr v" "v \<noteq> 1" "all_answered w token files"
  shows "try_block w token files view_only = (None, after token initial_state files)"
proof -
  have "\<forall>i<length files. answered w token (length (requests initial_state) + i) (files ! i)"
    using assms(3) by (simp add: all_answered_iff initial_state_def)
  then show ?thesis
    using try_block_live [OF assms(1,2)] delete_loop_all_answered by simp
qed

text \<open>
  C3: with the dry run off, when every request gets a response the loop can read
  (\<open>ok\<close> true, or \<open>ok\<close> false with an \<open>error\<close>), the deleted count is the number of files
  and the deleted size is the sum of their sizes, whatever the \<open>ok\<close> flags were: both
  are incremented before the request is sent. The summary line reports these values.
\<close>

theorem failed_deletions_counted:
  assumes "py_int view_only = Inr v" "v \<noteq> 1" "all_answered w token files"
  shows "count (delete_run w token files view_only fsize amount) = int (length files)
       \<and> deleted_size (delete_run w token files view_only fsize amount)
           = sum_list (map f_size files)
       \<and> delete_files w token files view_only fsize amount
           = nl_to_br (summary_line w fsize amount (int (length files))
                        (sum_list (map f_size files)))"
  by (simp add: delete_files_def delete_run_def try_block_all_answered [OF assms]
        except_clause_def after_initial)

lemma files0_eq:
  "files0 =
     [\<lparr> f_id = ''F1'', f_name = ''photo.png'', f_timestamp = ''100'',
        f_mimetype = ''image/png'', f_size = 1048576 \<rparr>,
      \<lparr> f_id = ''F2'', f_name = ''notes'', f_timestamp = ''200'',
        f_mimetype = ''application/vnd.slack-docs+document'', f_size = 524288 \<rparr>,
      \<lparr> f_id = ''F3'', f_name = ''clip.mp4'', f_timestamp = ''300'',
        f_mimetype = ''video/mp4'', f_size = 2097152 \<rparr>]"
  by code_simp

lemma all_answered_world1: "all_answered world1 token files"
  by (simp add: all_answered_iff answered_def world1_def)

theorem failed_deletions_counted_witness:
  "py_int (PInt 0) = Inr 0 \<and> (0::int) \<noteq> 1 \<and> all_answered world1 ''xoxp'' files0
   \<and> files_delete world1 0 ''xoxp'' ''F1'' = Responds False (Some ''not_allowed'')
   \<and> count (delete_run world1 ''xoxp'' files0 (PInt 0) 3670016 3) = 3
   \<and> deleted_size (delete_run world1 ''xoxp'' files0 (PInt 0) 3670016 3) = 3670016"
proof -
  have a: "py_int (PInt 0) = Inr 0" by simp
  have b: "(0::int) \<noteq> 1" by simp
  have c: "all_answered world1 ''xoxp'' files0" by (rule all_answered_world1)
  have d: "files_delete world1 0 ''xoxp'' ''F1'' = Responds False (Some ''not_allowed'')"
    by (simp add: world1_def)
  show ?thesis
    using failed_deletions_counted [OF a b c, of 3670016 3] a c d
    by (simp add: files0_eq)
qed

section \<open>Requests sent\<close>

text \<open>
  C4: when \<open>int(view_only)\<close> is 1, no request is sent to the \<open>files.delete\<close> endpoint,
  whatever the list of files.
\<close>

theorem dry_run_sends_no_request:
  "py_int view_only = Inr 1 \<Longrightarrow>
   requests (delete_run w token files view_only fsize amount) = []"
  by (simp add: delete_run_dry_run)

theorem dry_run_sends_no_request_witness:
  "py_int (PInt 1) = Inr 1 \<and>
   requests (delete_run world0 ''xoxp'' files0 (PInt 1) 3670016 3) = []"
proof -
  have h: "py_int (PInt 1) = Inr 1" by simp
  show ?thesis using h dry_run_sends_no_request [OF h] by simp
qed

lemma nl_to_br_Cons:
  "nl_to_br (c # s) = (if c = CHR 0x0A then ''<br><br>'' else [c]) @ nl_to_br s"
  by (simp add: nl_to_br_def)

lemma try_block_raises_at:
  assumes "py_int view_only = Inr v" "v \<noteq> 1" "k < length files"
    and "\<forall>i<k. answered w token i (files ! i)"
    and "files_delete w k token (f_id (files ! k)) = Raises e"
  shows "try_block w token files view_only
           = (Some e, after token initial_state (take (Suc k) files))"
proof -
  have len: "length (requests initial_state) = 0" by (simp add: initial_state_def)
  have "delete_loop w token initial_state files
          = (Some e, after token initial_state (take (Suc k) files))"
    by (rule delete_loop_raises_at [OF assms(3)]) (simp_all add: len assms(4,5))
  then show ?thesis using try_block_live [OF assms(1,2)] by simp
qed



section \<open>The test of the dry-run flag\<close>

lemma requests_delete_run:
  "requests (delete_run w token files view_only fsize amount)
     = requests (snd (try_block w token files view_only))"
  by (simp add: delete_run_def except_clause_def Let_def split: prod.splits option.splits)

lemma count_delete_run:
  "count (delete_run w token files view_only fsize amount)
     = count (snd (try_block w token files view_only))"
  by (simp add: delete_run_def except_clause_def Let_def split: prod.splits option.splits)

lemma deleted_size_delete_run:
  "deleted_size (delete_run w token files view_only fsize amount)
     = deleted_size (snd (try_block w token files view_only))"
  by (simp add: delete_run_def except_clause_def Let_def split: prod.splits option.splits)

lemma try_block_stops_at:
  assumes "py_int view_only = Inr v" "v \<noteq> 1" "k < length files"
    and "\<forall>i<k. answered w token i (files ! i)"
    and "\<not> answered w token k (files ! k)"
  shows "snd (try_block w token files view_only)
           = after token initial_state (take (Suc k) files)"
proof -
  have len: "length (requests initial_state) = 0" by (simp add: initial_state_def)
  have "\<exists>e. delete_loop w token initial_state files
          = (Some e, after token initial_state (take (Suc k) files))"
    by (rule delete_loop_stops_at [OF assms(3)]) (simp_all add: len assms(4,5))
  then show ?thesis using try_block_live [OF assms(1,2)] by auto
qed

text \<open>
  C10, as the code has it: the test is \<open>int(view_only) == 1\<close>. When the conversion gives 1
  no request is sent. When it gives any other integer the loop is entered: the requests
  sent are those for the files in order, for all of them when every request is answered,
  and up to and including the first request that is not (it raises, or its response has
  neither a true \<open>ok\<close> nor an \<open>error\<close>), after which the loop is left.
\<close>

theorem dry_run_test:
  "(py_int view_only = Inr 1 \<longrightarrow>
      requests (delete_run w token files view_only fsize amount) = [])
   \<and> (\<forall>v. py_int view_only = Inr v \<and> v \<noteq> 1 \<and> all_answered w token files \<longrightarrow>
      requests (delete_run w token files view_only fsize amount)
        = map (\<lambda>f. (token, f_id f)) files)
   \<and> (\<forall>v k. py_int view_only = Inr v \<and> v \<noteq> 1 \<and> k < length files
        \<and> (\<forall>i<k. answered w token i (files ! i)) \<and> \<not> answered w token k (files ! k) \<longrightarrow>
      requests (delete_run w token files view_only fsize amount)
        = map (\<lambda>f. (token, f_id f)) (take (Suc k) files))"
proof (intro conjI allI impI)
  assume "py_int view_only = Inr 1"
  then show "requests (delete_run w token files view_only fsize amount) = []"
    by (simp add: delete_run_dry_run)
next
  fix v
  assume "py_int view_only = Inr v \<and> v \<noteq> 1 \<and> all_answered w token files"
  then have "try_block w token files view_only = (None, after token initial_state files)"
    using try_block_all_answered by blast
  then show "requests (delete_run w token files view_only fsize amount)
        = map (\<lambda>f. (token, f_id f)) files"
    by (simp add: requests_delete_run after_initial)
next
  fix v k
  assume "py_int view_only = Inr v \<and> v \<noteq> 1 \<and> k < length files
        \<and> (\<forall>i<k. answered w token i (files ! i)) \<and> \<not> answered w token k (files ! k)"
  then have "snd (try_block w token files view_only)
           = after token initial_state (take (Suc k) files)"
    using try_block_stops_at by blast
  then show "requests (delete_run w token files view_only fsize amount)
        = map (\<lambda>f. (token, f_id f)) (take (Suc k) files)"
    by (simp add: requests_delete_run after_initial del: take_Suc)
qed

theorem dry_run_test_witness:
  "py_int (PStr ''1'') = Inr 1
   \<and> requests (delete_run world0 ''xoxp'' files0 (PStr ''1'') 3670016 3) = []
   \<and> py_int (PInt (- 1)) = Inr (- 1) \<and> (- 1 :: int) \<noteq> 1
   \<and> all_answered world1 ''xoxp'' files0
   \<and> requests (delete_run world1 ''xoxp'' files0 (PInt (- 1)) 3670016 3)
        = [(''xoxp'', ''F1''), (''xoxp'', ''F2''), (''xoxp'', ''F3'')]
   \<and> py_int (PInt 2) = Inr 2 \<and> (2 :: int) \<noteq> 1 \<and> 1 < length files0
   \<and> answered world0 ''xoxp'' 0 (files0 ! 0)
   \<and> \<not> answered world0 ''xoxp'' 1 (files0 ! 1)
   \<and> requests (delete_run world0 ''xoxp'' files0 (PInt 2) 3670016 3)
        = [(''xoxp'', ''F1''), (''xoxp'', ''F2'')]"
proof -
  have a: "py_int (PStr ''1'') = Inr 1" by code_simp
  have b: "py_int (PInt (- 1)) = Inr (- 1) \<and> (- 1 :: int) \<noteq> 1
             \<and> all_answered world1 ''xoxp'' files0"
    by (simp add: all_answered_world1)
  have c: "py_int (PInt 2) = Inr 2 \<and> (2 :: int) \<noteq> 1 \<and> 1 < length files0
             \<and> (\<forall>i<1. answered world0 ''xoxp'' i (files0 ! i))
             \<and> \<not> answered world0 ''xoxp'' 1 (files0 ! 1)"
    by (simp add: files0_eq answered_def world0_def)
  have t: "take (Suc 1) files0 = [files0 ! 0, files0 ! 1]"
    by (simp add: files0_eq)
  note inst = dry_run_test [of "PStr ''1''" world0 "''xoxp''" files0 3670016 3]
    dry_run_test [of "PInt (- 1)" world1 "''xoxp''" files0 3670016 3]
    dry_run_test [of "PInt 2" world0 "''xoxp''" files0 3670016 3]
  have r1: "requests (delete_run world0 ''xoxp'' files0 (PStr ''1'') 3670016 3) = []"
    using inst(1) a by blast
  have r2: "requests (delete_run world1 ''xoxp'' files0 (PInt (- 1)) 3670016 3)
        = map (\<lambda>f. (''xoxp'', f_id f)) files0"
    using inst(2) b by blast
  have r3: "requests (delete_run world0 ''xoxp'' files0 (PInt 2) 3670016 3)
        = map (\<lambda>f. (''xoxp'', f_id f)) (take (Suc 1) files0)"
    using inst(3) c by blast
  show ?thesis
    using a b c r1 r2 r3 by (simp add: t) (simp add: files0_eq)
qed

text \<open>
  C10, as stated, fails where a request raises: with \<open>view_only = 0\<close> and three
  candidate files, the second request raises and no request is sent for the third file.
\<close>

theorem dry_run_off_not_every_file_requested:
  "py_int (PInt 0) = Inr 0 \<and> length files0 = 3 \<and> f_id (files0 ! 2) = ''F3''
   \<and> requests (delete_run world0 ''xoxp'' files0 (PInt 0) 3670016 3)
        = [(''xoxp'', ''F1''), (''xoxp'', ''F2'')]"
proof -
  have "try_block world0 ''xoxp'' files0 (PInt 0)
          = (Some (Raised ''timeout''), after ''xoxp'' initial_state (take (Suc 1) files0))"
    by (rule try_block_raises_at [of _ 0])
       (simp_all add: files0_eq answered_def world0_def)
  then show ?thesis
    by (simp add: requests_delete_run after_initial files0_eq)
qed

section \<open>The end of the report\<close>

lemma return_value_delete_run:
  "\<exists>acc. return_value (delete_run w token files view_only fsize amount)
     = acc @ summary_line w fsize amount
               (count (delete_run w token files view_only fsize amount))
               (deleted_size (delete_run w token files view_only fsize amount))"
  by (simp add: delete_run_def Let_def)

text \<open>
  C6: for every list of files, every value of the flag and every behaviour of the
  endpoint, the text accumulated ends with the summary line, built from the attempted
  size and count and from the final counters, and the report returned is that text with
  two line breaks \<open><br><br>\<close> in the place of each newline and every other character
  as it is. So the report ends with the summary line, its own newlines replaced too, and
  contains no newline. Where the summary line has no newline of its own (the clock and
  the megabyte renderings have none), the report ends with the summary line as it stands.
\<close>

theorem report_ends_with_summary:
  "suffix (nl_to_br (summary_line w fsize amount
               (count (delete_run w token files view_only fsize amount))
               (deleted_size (delete_run w token files view_only fsize amount))))
          (delete_files w token files view_only fsize amount)
   \<and> CHR 0x0A \<notin> set (delete_files w token files view_only fsize amount)
   \<and> (CHR 0x0A \<notin> set (summary_line w fsize amount
               (count (delete_run w token files view_only fsize amount))
               (deleted_size (delete_run w token files view_only fsize amount))) \<longrightarrow>
       suffix (summary_line w fsize amount
               (count (delete_run w token files view_only fsize amount))
               (deleted_size (delete_run w token files view_only fsize amount)))
          (delete_files w token files view_only fsize amount))
   \<and> suffix (summary_line w fsize amount
               (count (delete_run w token files view_only fsize amount))
               (deleted_size (delete_run w token files view_only fsize amount)))
          (return_value (delete_run w token files view_only fsize amount))
   \<and> delete_files w token files view_only fsize amount
       = concat (map (\<lambda>c. if c = CHR 0x0A then ''<br><br>'' else [c])
                  (return_value (delete_run w token files view_only fsize amount)))
   \<and> delete_files w token files view_only fsize amount
       = py_replace [CHR 0x0A] ''<br><br>''
           (return_value (delete_run w token files view_only fsize amount))"
proof -
  let ?st = "delete_run w token files view_only fsize amount"
  let ?line = "summary_line w fsize amount (count ?st) (deleted_size ?st)"
  obtain acc where acc: "return_value ?st = acc @ ?line"
    using return_value_delete_run by blast
  have eq: "delete_files w token files view_only fsize amount
              = nl_to_br acc @ nl_to_br ?line"
    by (simp add: delete_files_def acc nl_to_br_append)
  have ends: "suffix (nl_to_br ?line) (delete_files w token files view_only fsize amount)"
    unfolding eq by (rule suffix_appendI) simp
  have none: "CHR 0x0A \<notin> set (delete_files w token files view_only fsize amount)"
    by (simp add: delete_files_def nl_to_br_no_newline)
  have plain: "CHR 0x0A \<notin> set ?line \<longrightarrow>
      suffix ?line (delete_files w token files view_only fsize amount)"
    using ends by (auto simp: nl_to_br_id)
  have text_ends: "suffix ?line (return_value ?st)"
    unfolding acc by (rule suffix_appendI) simp
  have each: "delete_files w token files view_only fsize amount
      = concat (map (\<lambda>c. if c = CHR 0x0A then ''<br><br>'' else [c]) (return_value ?st))"
    by (simp add: delete_files_def nl_to_br_def)
  have repl: "delete_files w token files view_only fsize amount
      = py_replace [CHR 0x0A] ''<br><br>'' (return_value ?st)"
    by (simp add: delete_files_def nl_to_br_is_replace)
  from ends none plain text_ends each repl show ?thesis by blast
qed

lemma summary_line_world0:
  "summary_line world0 3670016 3 2 1572864
     = ''[i] 2020-01-01 10:00:02 Attempted to delete 3.50 MB in 3 files, actually deleted 2 files sized 1.50 MB''"
  by code_simp

lemma summary_line_world0_dry:
  "summary_line world0 3670016 3 0 0
     = ''[i] 2020-01-01 10:00:02 Attempted to delete 3.50 MB in 3 files, actually deleted 0 files sized 0.00 MB''"
  by code_simp

lemma delete_run_world0_counters:
  "count (delete_run world0 ''xoxp'' files0 (PInt 0) 3670016 3) = 2
   \<and> deleted_size (delete_run world0 ''xoxp'' files0 (PInt 0) 3670016 3) = 1572864"
proof -
  have "try_block world0 ''xoxp'' files0 (PInt 0)
          = (Some (Raised ''timeout''), after ''xoxp'' initial_state (take (Suc 1) files0))"
    by (rule try_block_raises_at [of _ 0])
       (simp_all add: files0_eq answered_def world0_def)
  then show ?thesis
    by (simp add: count_delete_run deleted_size_delete_run after_initial files0_eq)
qed

text \<open>
  The witness: a run with the dry run off, whose report ends with the summary line, and a
  dry run, whose accumulated text has the newline of the notice before the summary line
  and whose report has two line breaks in its place.
\<close>

theorem report_ends_with_summary_witness:
  "CHR 0x0A \<notin> set (summary_line world0 3670016 3 2 1572864)
   \<and> suffix ''[i] 2020-01-01 10:00:02 Attempted to delete 3.50 MB in 3 files, actually deleted 2 files sized 1.50 MB''
        (delete_files world0 ''xoxp'' files0 (PInt 0) 3670016 3)
   \<and> CHR 0x0A \<notin> set (delete_files world0 ''xoxp'' files0 (PInt 0) 3670016 3)
   \<and> return_value (delete_run world0 ''xoxp'' files0 (PInt 1) 3670016 3)
        = ''[i] DRY RUN, NO FILES DELETED'' @ [CHR 0x0A]
          @ ''[i] 2020-01-01 10:00:02 Attempted to delete 3.50 MB in 3 files, actually deleted 0 files sized 0.00 MB''
   \<and> delete_files world0 ''xoxp'' files0 (PInt 1) 3670016 3
        = ''[i] DRY RUN, NO FILES DELETED<br><br>[i] 2020-01-01 10:00:02 Attempted to delete 3.50 MB in 3 files, actually deleted 0 files sized 0.00 MB''"
proof -
  have h: "CHR 0x0A \<notin> set (summary_line world0 3670016 3 2 1572864)"
    by (simp add: summary_line_world0)
  have dry: "return_value (delete_run world0 ''xoxp'' files0 (PInt 1) 3670016 3)
        = ''[i] DRY RUN, NO FILES DELETED'' @ [CHR 0x0A]
          @ ''[i] 2020-01-01 10:00:02 Attempted to delete 3.50 MB in 3 files, actually deleted 0 files sized 0.00 MB''"
    by (simp add: delete_run_dry_run dry_run_message_def summary_line_world0_dry)
  have live: "suffix ''[i] 2020-01-01 10:00:02 Attempted to delete 3.50 MB in 3 files, actually deleted 2 files sized 1.50 MB''
        (delete_files world0 ''xoxp'' files0 (PInt 0) 3670016 3)
      \<and> CHR 0x0A \<notin> set (delete_files world0 ''xoxp'' files0 (PInt 0) 3670016 3)"
  proof -
    note inst = report_ends_with_summary [of world0 3670016 3 "''xoxp''" files0 "PInt 0"]
    from inst have "CHR 0x0A \<notin> set (summary_line world0 3670016 3
               (count (delete_run world0 ''xoxp'' files0 (PInt 0) 3670016 3))
               (deleted_size (delete_run world0 ''xoxp'' files0 (PInt 0) 3670016 3))) \<longrightarrow>
       suffix (summary_line world0 3670016 3
               (count (delete_run world0 ''xoxp'' files0 (PInt 0) 3670016 3))
               (deleted_size (delete_run world0 ''xoxp'' files0 (PInt 0) 3670016 3)))
          (delete_files world0 ''xoxp'' files0 (PInt 0) 3670016 3)"
      by blast
    then have "suffix ''[i] 2020-01-01 10:00:02 Attempted to delete 3.50 MB in 3 files, actually deleted 2 files sized 1.50 MB''
        (delete_files world0 ''xoxp'' files0 (PInt 0) 3670016 3)"
      using h by (simp add: delete_run_world0_counters summary_line_world0)
    moreover from inst
    have "CHR 0x0A \<notin> set (delete_files world0 ''xoxp'' files0 (PInt 0) 3670016 3)"
      by blast
    ultimately show ?thesis by blast
  qed
  have "delete_files world0 ''xoxp'' files0 (PInt 1) 3670016 3
      = concat (map (\<lambda>c. if c = CHR 0x0A then ''<br><br>'' else [c])
                 (return_value (delete_run world0 ''xoxp'' files0 (PInt 1) 3670016 3)))"
    using report_ends_with_summary [of world0 3670016 3 "''xoxp''" files0 "PInt 1"]
    by blast
  then have rep: "delete_files world0 ''xoxp'' files0 (PInt 1) 3670016 3
        = ''[i] DRY RUN, NO FILES DELETED<br><br>[i] 2020-01-01 10:00:02 Attempted to delete 3.50 MB in 3 files, actually deleted 0 files sized 0.00 MB''"
    unfolding dry by simp
  from h live dry rep show ?thesis by blast
qed

section \<open>Bounds on the filtered set and on the counters\<close>

lemma length_collect_files: "length (collect_files w resp) \<le> length resp"
  by (induction resp) (auto simp: le_SucI)

lemma size_collect_files:
  "\<forall>f\<in>set resp. 0 \<le> r_size f \<Longrightarrow>
   sum_list (map f_size (collect_files w resp)) \<le> sum_list (map r_size resp)"
  by (induction resp) (auto simp: reshape_def)

lemma sizes_nonneg:
  "\<forall>f\<in>set fs. 0 \<le> f_size f \<Longrightarrow> 0 \<le> sum_list (map f_size fs)"
  by (induction fs) auto

text \<open>
  The loop over \<open>xs @ ys\<close> passes through the state that the loop over \<open>xs\<close> ends in, or
  has stopped in it: the states of the loop over the prefixes of \<open>files\<close> are the states
  the loop over \<open>files\<close> goes through.
\<close>

lemma delete_loop_prefix:
  "delete_loop w token st (xs @ ys) =
     (case delete_loop w token st xs of
        (None, st') \<Rightarrow> delete_loop w token st' ys
      | (Some e, st') \<Rightarrow> (Some e, st'))"
  by (induction xs arbitrary: st)
     (auto simp: Let_def split: outcome.splits option.splits)

lemma delete_loop_bounds:
  "\<forall>f\<in>set fs. 0 \<le> f_size f \<Longrightarrow>
   count (snd (delete_loop w token st fs)) \<le> count st + int (length fs)
   \<and> deleted_size (snd (delete_loop w token st fs))
       \<le> deleted_size st + sum_list (map f_size fs)"
proof (induction fs arbitrary: st)
  case Nil
  show ?case by simp
next
  case (Cons f fs)
  let ?st = "st\<lparr> count := count st + 1, deleted_size := deleted_size st + f_size f,
                  requests := requests st @ [(token, f_id f)] \<rparr>"
  from Cons.prems have nonneg: "\<forall>f\<in>set fs. 0 \<le> f_size f" by simp
  have rest: "0 \<le> sum_list (map f_size fs)"
    using nonneg by (rule sizes_nonneg)
  note ih = Cons.IH [OF nonneg, of ?st]
  show ?case
  proof (cases "answered w token (length (requests st)) f")
    case True
    then show ?thesis
      using ih delete_loop_step_answered [of w token st f fs] by simp
  next
    case False
    then obtain e where "delete_loop w token st (f # fs) = (Some e, after token st [f])"
      using delete_loop_step_stops by blast
    then show ?thesis using rest by (simp add: after_def)
  qed
qed

lemma sum_take_le:
  "\<forall>f\<in>set fs. 0 \<le> f_size f \<Longrightarrow>
   sum_list (map f_size (take k fs)) \<le> sum_list (map f_size fs)"
proof -
  assume nonneg: "\<forall>f\<in>set fs. 0 \<le> f_size f"
  have "sum_list (map f_size fs)
          = sum_list (map f_size (take k fs)) + sum_list (map f_size (drop k fs))"
    by (metis append_take_drop_id map_append sum_list.append)
  moreover have "0 \<le> sum_list (map f_size (drop k fs))"
  proof (rule sizes_nonneg, rule ballI)
    fix f assume "f \<in> set (drop k fs)"
    then have "f \<in> set fs" by (rule in_set_dropD)
    with nonneg show "0 \<le> f_size f" by blast
  qed
  ultimately show ?thesis by simp
qed

lemma try_block_bounds:
  assumes "\<forall>f\<in>set files. 0 \<le> f_size f"
  shows "count (snd (try_block w token files view_only)) \<le> int (length files)
       \<and> deleted_size (snd (try_block w token files view_only))
           \<le> sum_list (map f_size files)"
proof -
  have zero: "0 \<le> sum_list (map f_size files)"
    using assms by (rule sizes_nonneg)
  have loop: "count (snd (delete_loop w token initial_state files)) \<le> int (length files)
       \<and> deleted_size (snd (delete_loop w token initial_state files))
           \<le> sum_list (map f_size files)"
    using delete_loop_bounds [OF assms, of w token initial_state]
    by (simp add: initial_state_def)
  show ?thesis
    using zero loop
    by (auto simp: try_block_def initial_state_def Let_def split: sum.splits)
qed

lemma delete_loop_count:
  "count (snd (delete_loop w token st fs)) \<le> count st + int (length fs)"
proof (induction fs arbitrary: st)
  case Nil
  show ?case by simp
next
  case (Cons f fs)
  let ?st = "st\<lparr> count := count st + 1, deleted_size := deleted_size st + f_size f,
                  requests := requests st @ [(token, f_id f)] \<rparr>"
  show ?case
  proof (cases "answered w token (length (requests st)) f")
    case True
    then show ?thesis
      using Cons.IH [of ?st] delete_loop_step_answered [of w token st f fs] by simp
  next
    case False
    then obtain e where "delete_loop w token st (f # fs) = (Some e, after token st [f])"
      using delete_loop_step_stops by blast
    then show ?thesis by (simp add: after_def)
  qed
qed

lemma try_block_count:
  "count (snd (try_block w token files view_only)) \<le> int (length files)"
  using delete_loop_count [of w token initial_state files]
  by (auto simp: try_block_def initial_state_def Let_def split: sum.splits)

text \<open>
  C9: the filtered set has no more entries than the listing response and, sizes being
  byte counts (not negative), no greater total size. The deleted count never exceeds the
  number of candidate files and, for such sizes, the deleted size never exceeds their
  total size: in the state the loop reaches after any number \<open>k\<close> of files, and in the
  final state of \<open>delete_files\<close>, for every value of the flag.
\<close>

theorem counters_within_candidates:
  "length (collect_files w resp) \<le> length resp
   \<and> ((\<forall>f\<in>set resp. 0 \<le> r_size f) \<longrightarrow>
        sum_list (map f_size (collect_files w resp)) \<le> sum_list (map r_size resp))
   \<and> (\<forall>k. count (snd (delete_loop w token initial_state (take k files)))
              \<le> int (length files))
   \<and> count (delete_run w token files view_only fsize amount) \<le> int (length files)
   \<and> ((\<forall>f\<in>set files. 0 \<le> f_size f) \<longrightarrow>
        (\<forall>k. deleted_size (snd (delete_loop w token initial_state (take k files)))
              \<le> sum_list (map f_size files))
        \<and> deleted_size (delete_run w token files view_only fsize amount)
              \<le> sum_list (map f_size files))"
proof (intro conjI impI allI)
  show "length (collect_files w resp) \<le> length resp"
    by (rule length_collect_files)
next
  assume "\<forall>f\<in>set resp. 0 \<le> r_size f"
  then show "sum_list (map f_size (collect_files w resp)) \<le> sum_list (map r_size resp)"
    by (rule size_collect_files)
next
  fix k
  have "count (snd (delete_loop w token initial_state (take k files)))
          \<le> int (length (take k files))"
    using delete_loop_count [of w token initial_state "take k files"]
    by (simp add: initial_state_def)
  then show "count (snd (delete_loop w token initial_state (take k files)))
          \<le> int (length files)"
    by simp
next
  show "count (delete_run w token files view_only fsize amount) \<le> int (length files)"
    by (simp add: count_delete_run try_block_count)
next
  fix k
  assume nonneg: "\<forall>f\<in>set files. 0 \<le> f_size f"
  have "\<forall>f\<in>set (take k files). 0 \<le> f_size f"
    using nonneg by (auto dest: in_set_takeD)
  then have "deleted_size (snd (delete_loop w token initial_state (take k files)))
          \<le> sum_list (map f_size (take k files))"
    using delete_loop_bounds [of "take k files" w token initial_state]
    by (simp add: initial_state_def)
  also have "\<dots> \<le> sum_list (map f_size files)"
    using nonneg by (rule sum_take_le)
  finally show "deleted_size (snd (delete_loop w token initial_state (take k files)))
          \<le> sum_list (map f_size files)" .
next
  assume nonneg: "\<forall>f\<in>set files. 0 \<le> f_size f"
  then show "deleted_size (delete_run w token files view_only fsize amount)
          \<le> sum_list (map f_size files)"
    by (simp add: deleted_size_delete_run try_block_bounds)
qed

lemma listing0_nonneg: "\<forall>f\<in>set listing0. 0 \<le> r_size f"
  by (simp add: listing0_def)

lemma files0_nonneg: "\<forall>f\<in>set files0. 0 \<le> f_size f"
  by (simp add: files0_eq)

theorem counters_within_candidates_witness:
  "list_all (\<lambda>f. 0 \<le> r_size f) listing0 \<and> list_all (\<lambda>f. 0 \<le> f_size f) files0
   \<and> length (collect_files world0 listing0) \<le> 4
   \<and> sum_list (map f_size (collect_files world0 listing0)) \<le> 3670023
   \<and> count (snd (delete_loop world0 ''xoxp'' initial_state (take 1 files0))) \<le> 3
   \<and> deleted_size (snd (delete_loop world0 ''xoxp'' initial_state (take 1 files0)))
        \<le> 3670016
   \<and> count (delete_run world0 ''xoxp'' files0 (PInt 0) 3670016 3) \<le> 3
   \<and> deleted_size (delete_run world0 ''xoxp'' files0 (PInt 0) 3670016 3) \<le> 3670016"
proof -
  have n: "length listing0 = 4 \<and> sum_list (map r_size listing0) = 3670023
           \<and> int (length files0) = 3 \<and> sum_list (map f_size files0) = 3670016"
    by (simp add: listing0_def files0_eq)
  show ?thesis
    using counters_within_candidates
            [of world0 listing0 "''xoxp''" files0 "PInt 0" 3670016 3]
          listing0_nonneg files0_nonneg n
    by (auto simp: list_all_iff simp del: take_Suc)
qed

section \<open>The filter on mimetypes\<close>

lemma str_in_single: "str_in [c] b \<longleftrightarrow> c \<in> set b"
proof
  assume "str_in [c] b"
  then obtain i where "take 1 (drop i b) = [c]"
    by (auto simp: str_in_def list_ex_iff)
  then have "c \<in> set (take 1 (drop i b))" by simp
  then show "c \<in> set b"
    by (meson in_set_dropD in_set_takeD)
next
  assume "c \<in> set b"
  then obtain i where i: "i < length b" "b ! i = c"
    by (auto simp: in_set_conv_nth)
  then have "take 1 (drop i b) = [c]"
    by (simp add: Cons_nth_drop_Suc [symmetric])
  with i show "str_in [c] b"
    by (auto simp: str_in_def list_ex_iff intro!: bexI [of _ i])
qed

text \<open>What the filter computes: an entry is kept if and only if its mimetype has one of
  the letters of \<open>document\<close>.\<close>

lemma keep_file_letters:
  "keep_file f \<longleftrightarrow> (\<exists>c \<in> set ''document''. c \<in> set (r_mimetype f))"
  by (auto simp: keep_file_def iter_str_def mimetypes_def str_in_single)

text \<open>
  C2 fails on the code: the entry with mimetype \<open>image/png\<close>, in which the word
  \<open>document\<close> does not occur, is kept, and so is the one with \<open>video/mp4\<close>.
\<close>

theorem image_and_video_kept:
  "r_mimetype (listing0 ! 0) = ''image/png'' \<and> keep_file (listing0 ! 0)
   \<and> \<not> spec_keep_file (listing0 ! 0)
   \<and> r_mimetype (listing0 ! 2) = ''video/mp4'' \<and> keep_file (listing0 ! 2)
   \<and> \<not> spec_keep_file (listing0 ! 2)
   \<and> map f_id (collect_files world0 listing0) = [''F1'', ''F2'', ''F3'']"
  by code_simp

section \<open>Parameter resolution\<close>

lemma map_of_in_keys: "k \<in> fst ` set al \<longleftrightarrow> map_of al k \<noteq> None"
  by (simp add: map_of_eq_None_iff)

lemma check_arg_raises:
  "get_json r = Inl e \<Longrightarrow> check_arg name r dflt = Inl e"
  by (simp add: check_arg_def)

lemma check_arg_returns:
  "check_arg name r dflt = Inr v \<Longrightarrow> \<exists>b. get_json r = Inr b"
  by (cases "get_json r") (simp_all add: check_arg_def)

lemma check_arg_query:
  "get_json r = Inr b \<Longrightarrow> map_of (args r) name = Some s \<Longrightarrow>
   check_arg name r dflt = Inr (PStr s)"
proof -
  assume b: "get_json r = Inr b" and s: "map_of (args r) name = Some s"
  then have "name \<in> set (map fst (args r))"
    by (simp add: map_of_in_keys)
  moreover from this have "args r \<noteq> []" by auto
  ultimately show ?thesis by (simp add: check_arg_def b s)
qed

lemma check_arg_no_query:
  "get_json r = Inr b \<Longrightarrow> map_of (args r) name = None \<Longrightarrow>
   check_arg name r dflt =
     (if \<not> body_truthy b then Inr dflt
      else (case body_contains name b of
              Inl e \<Rightarrow> Inl e
            | Inr True \<Rightarrow> body_index b name
            | Inr False \<Rightarrow> Inr dflt))"
  by (simp add: check_arg_def map_of_in_keys)

lemma check_arg_json:
  "map_of (args r) name = None \<Longrightarrow> get_json r = Inr (JDict d) \<Longrightarrow>
   map_of d name = Some v \<Longrightarrow> check_arg name r dflt = Inr v"
proof -
  assume a: "map_of (args r) name = None" and d: "get_json r = Inr (JDict d)"
    and v: "map_of d name = Some v"
  from v have "name \<in> set (map fst d)" by (simp add: map_of_in_keys)
  moreover from this have "d \<noteq> []" by auto
  ultimately show ?thesis by (simp add: check_arg_no_query [OF d a] v)
qed

lemma check_arg_default:
  "map_of (args r) name = None \<Longrightarrow> get_json r = Inr (JDict d) \<Longrightarrow>
   map_of d name = None \<Longrightarrow> check_arg name r dflt = Inr dflt"
  by (simp add: check_arg_no_query map_of_in_keys)

lemma check_arg_no_body:
  "map_of (args r) name = None \<Longrightarrow> get_json r = Inr (JScalar PNone) \<Longrightarrow>
   check_arg name r dflt = Inr dflt"
  by (simp add: check_arg_no_query)

lemma check_arg_spec:
  assumes "resolvable name r"
  shows "check_arg name r dflt = Inr (spec_param name r dflt)"
proof -
  from assms obtain b where b: "get_json r = Inr b"
    by (cases "get_json r") (simp_all add: resolvable_def)
  show ?thesis
  proof (cases "map_of (args r) name")
    case (Some s)
    then show ?thesis by (simp add: check_arg_query [OF b] spec_param_def)
  next
    case None
    then have "name \<notin> set (map fst (args r))" by (simp add: map_of_in_keys)
    with assms b have body: "object_or_none b" by (simp add: resolvable_def)
    show ?thesis
    proof (cases b)
      case (JDict d)
      with b have d: "get_json r = Inr (JDict d)" by simp
      show ?thesis
        using None check_arg_json [OF None d] check_arg_default [OF None d]
        by (cases "map_of d name") (simp_all add: spec_param_def d)
    next
      case (JList l)
      with body show ?thesis by simp
    next
      case (JScalar v)
      with body have "v = PNone" by (cases v) simp_all
      with JScalar b None show ?thesis
        by (simp add: check_arg_no_body spec_param_def)
    qed
  qed
qed

text \<open>
  C7, as the code has it: resolution begins with the call \<open>request.get_json()\<close>, and when
  that call raises, resolution, and with it \<open>main\<close>, raises the same exception, whatever
  the query string holds. When the call returns, then for each of \<open>days\<close>, \<open>count\<close> and
  \<open>just_a_test\<close> whose name is in the query string, or with a body that is a dictionary or
  \<open>None\<close>, resolution gives the value of the query string when the name is there, else the
  value of the body when the name is a key of it, else the default, 30, 1000 and 1;
  \<open>main\<close> goes on with these three values.
\<close>

theorem parameter_precedence:
  "(\<forall>e. get_json r = Inl e \<longrightarrow>
      check_arg ''days'' r (PInt 30) = Inl e
      \<and> check_arg ''count'' r (PInt 1000) = Inl e
      \<and> check_arg ''just_a_test'' r (PInt 1) = Inl e
      \<and> main w r = Inl e)
   \<and> (resolvable ''days'' r \<longrightarrow>
      check_arg ''days'' r (PInt 30) = Inr (spec_param ''days'' r (PInt 30)))
   \<and> (resolvable ''count'' r \<longrightarrow>
      check_arg ''count'' r (PInt 1000) = Inr (spec_param ''count'' r (PInt 1000)))
   \<and> (resolvable ''just_a_test'' r \<longrightarrow>
      check_arg ''just_a_test'' r (PInt 1) = Inr (spec_param ''just_a_test'' r (PInt 1)))
   \<and> (resolvable ''days'' r \<and> resolvable ''count'' r \<and> resolvable ''just_a_test'' r \<longrightarrow>
      main w r = main_body w (spec_param ''days'' r (PInt 30))
                   (spec_param ''count'' r (PInt 1000))
                   (spec_param ''just_a_test'' r (PInt 1)))"
  by (simp add: check_arg_spec check_arg_raises main_def)

theorem parameter_precedence_witness:
  "resolvable ''days'' request0 \<and> resolvable ''count'' request0
   \<and> resolvable ''just_a_test'' request0
   \<and> check_arg ''days'' request0 (PInt 30) = Inr (PStr ''7'')
   \<and> check_arg ''count'' request0 (PInt 1000) = Inr (PInt 5)
   \<and> check_arg ''just_a_test'' request0 (PInt 1) = Inr (PInt 1)
   \<and> main world0 request0 = main_body world0 (PStr ''7'') (PInt 5) (PInt 1)
   \<and> get_json request_malformed_body = Inl (Raised ''400 Bad Request'')
   \<and> check_arg ''days'' request_malformed_body (PInt 30) = Inl (Raised ''400 Bad Request'')
   \<and> main world0 request_malformed_body = Inl (Raised ''400 Bad Request'')"
proof -
  have h: "resolvable ''days'' request0 \<and> resolvable ''count'' request0
             \<and> resolvable ''just_a_test'' request0"
    by (simp add: resolvable_def request0_def)
  have v: "spec_param ''days'' request0 (PInt 30) = PStr ''7''
         \<and> spec_param ''count'' request0 (PInt 1000) = PInt 5
         \<and> spec_param ''just_a_test'' request0 (PInt 1) = PInt 1"
    by (simp add: spec_param_def request0_def)
  have g: "get_json request_malformed_body = Inl (Raised ''400 Bad Request'')"
    by (simp add: request_malformed_body_def)
  show ?thesis
    using parameter_precedence [of request0 world0] h v
      parameter_precedence [of request_malformed_body world0] g
    by simp
qed

text \<open>
  C7, as stated, fails. With no parameter in the query string and the number 5 as JSON
  body, the membership test raises where the claim gives the default; with the list
  \<open>["days"]\<close> or the string \<open>xdaysx\<close> as body the name is in the body and the indexing
  raises; and with \<open>days\<close> in the query string and a body that \<open>get_json()\<close> refuses, the
  value of the query string is not returned.
\<close>

theorem parameter_resolution_raises:
  "check_arg ''days'' request_number_body (PInt 30) = Inl (TypeError_in (PInt 5))
   \<and> check_arg ''days'' request_list_body (PInt 30) = Inl TypeError_index
   \<and> check_arg ''days'' request_string_body (PInt 30) = Inl TypeError_index
   \<and> map_of (args request_malformed_body) ''days'' = Some ''7''
   \<and> check_arg ''days'' request_malformed_body (PInt 30) = Inl (Raised ''400 Bad Request'')"
  by (simp add: check_arg_def request_number_body_def request_list_body_def
        request_string_body_def request_malformed_body_def str_in_def)

section \<open>Values that are no numbers\<close>

lemma list_files_bad_count:
  "py_int c = Inl e \<Longrightarrow> list_files w token d c = Inl e"
  by (simp add: list_files_def)

lemma list_files_bad_days:
  "py_int c = Inr n \<Longrightarrow> py_int d = Inl e \<Longrightarrow> list_files w token d c = Inl e"
  by (simp add: list_files_def calculate_days_def)

lemma delete_run_bad_flag:
  "py_int t = Inl e \<Longrightarrow>
   delete_run w token files t fsize amount =
     \<lparr> count = 0, deleted_size = 0,
       return_value = ''<br><br>'' @ str_exn w e @ ''<br><br>''
                        @ summary_line w fsize amount 0 0,
       requests = [] \<rparr>"
  by (simp add: delete_run_def try_block_def except_clause_def initial_state_def)

lemma delete_files_bad_flag:
  "py_int t = Inl e \<Longrightarrow>
   delete_files w token files t fsize amount =
     ''<br><br>'' @ nl_to_br (str_exn w e) @ ''<br><br>''
       @ nl_to_br (summary_line w fsize amount 0 0)"
  by (simp add: delete_files_def delete_run_bad_flag nl_to_br_append nl_to_br_Cons)

text \<open>
  C8, as the code has it: \<open>check_arg\<close> converts nothing, it gives the string of the query
  or the value of the body as it is. A \<open>count\<close> or a \<open>days\<close> that \<open>int\<close> rejects makes
  \<open>list_files\<close>, and with it \<open>main\<close>, raise the conversion error. A \<open>just_a_test\<close> that
  \<open>int\<close> rejects does not: the conversion is inside the \<open>try\<close> block of \<open>delete_files\<close>,
  the error is caught, no request to delete is sent, and \<open>main\<close> returns its page, whose
  report is the text of the error followed by the summary line.
\<close>

theorem no_validation:
  assumes "check_arg ''days'' r (PInt 30) = Inr d"
    and "check_arg ''count'' r (PInt 1000) = Inr c"
    and "check_arg ''just_a_test'' r (PInt 1) = Inr t"
    and "access_secret_version w (resource_name w) = Inr token"
  shows "(\<forall>s. map_of (args r) name = Some s \<longrightarrow> check_arg name r dflt = Inr (PStr s))
   \<and> (\<forall>dict v. map_of (args r) name = None \<and> get_json r = Inr (JDict dict)
         \<and> map_of dict name = Some v \<longrightarrow> check_arg name r dflt = Inr v)
   \<and> (\<forall>e. py_int c = Inl e \<longrightarrow> main w r = Inl e)
   \<and> (\<forall>e n. py_int c = Inr n \<and> py_int d = Inl e \<longrightarrow> main w r = Inl e)
   \<and> (\<forall>e files. py_int t = Inl e \<and> list_files w token d c = Inr files \<longrightarrow>
        main w r =
          Inr (''[i] '' @ ts_title w @ '' Deleting files older than '' @ py_str d @ '' days''
               @ ''<br><br>''
               @ ''[i] '' @ ts_found w @ '' Found '' @ str_int (int (length files))
               @ '' files in '' @ mb_str w (sum_list (map f_size files)) @ '' MB''
               @ ''<br><br>''
               @ ''<br><br>'' @ nl_to_br (str_exn w e) @ ''<br><br>''
               @ nl_to_br (summary_line w (sum_list (map f_size files))
                             (int (length files)) 0 0))
        \<and> requests (delete_run w token files t (sum_list (map f_size files))
                       (int (length files))) = [])"
proof (intro conjI allI impI)
  fix s assume s: "map_of (args r) name = Some s"
  from assms(1) obtain b where "get_json r = Inr b"
    using check_arg_returns by blast
  then show "check_arg name r dflt = Inr (PStr s)"
    using s by (rule check_arg_query)
next
  fix dict v
  assume "map_of (args r) name = None \<and> get_json r = Inr (JDict dict)
    \<and> map_of dict name = Some v"
  then show "check_arg name r dflt = Inr v" by (simp add: check_arg_json)
next
  fix e assume "py_int c = Inl e"
  then show "main w r = Inl e"
    by (simp add: main_def main_body_def assms list_files_bad_count)
next
  fix e n assume "py_int c = Inr n \<and> py_int d = Inl e"
  then show "main w r = Inl e"
    by (simp add: main_def main_body_def assms list_files_bad_days)
next
  fix e files assume h: "py_int t = Inl e \<and> list_files w token d c = Inr files"
  then show "main w r =
          Inr (''[i] '' @ ts_title w @ '' Deleting files older than '' @ py_str d @ '' days''
               @ ''<br><br>''
               @ ''[i] '' @ ts_found w @ '' Found '' @ str_int (int (length files))
               @ '' files in '' @ mb_str w (sum_list (map f_size files)) @ '' MB''
               @ ''<br><br>''
               @ ''<br><br>'' @ nl_to_br (str_exn w e) @ ''<br><br>''
               @ nl_to_br (summary_line w (sum_list (map f_size files))
                             (int (length files)) 0 0))"
    by (simp add: main_def main_body_def assms delete_files_bad_flag Let_def)
next
  fix e files assume h: "py_int t = Inl e \<and> list_files w token d c = Inr files"
  then show "requests (delete_run w token files t (sum_list (map f_size files))
                       (int (length files))) = []"
    by (simp add: delete_run_bad_flag)
qed

lemma check_args_bad_count:
  "check_arg ''days'' request_bad_count (PInt 30) = Inr (PInt 30)
   \<and> check_arg ''count'' request_bad_count (PInt 1000) = Inr (PStr ''all'')
   \<and> check_arg ''just_a_test'' request_bad_count (PInt 1) = Inr (PInt 1)"
  by (simp add: check_arg_def request_bad_count_def)

lemma check_args_bad_days:
  "check_arg ''days'' request_bad_days (PInt 30) = Inr (PStr ''week'')
   \<and> check_arg ''count'' request_bad_days (PInt 1000) = Inr (PInt 1000)
   \<and> check_arg ''just_a_test'' request_bad_days (PInt 1) = Inr (PInt 1)"
  by (simp add: check_arg_def request_bad_days_def)

lemma check_args_bad_flag:
  "check_arg ''days'' request_bad_flag (PInt 30) = Inr (PInt 30)
   \<and> check_arg ''count'' request_bad_flag (PInt 1000) = Inr (PInt 1000)
   \<and> check_arg ''just_a_test'' request_bad_flag (PInt 1) = Inr (PStr ''yes'')"
  by (simp add: check_arg_def request_bad_flag_def)

lemma secret_world0: "access_secret_version world0 (resource_name world0) = Inr ''xoxp''"
  by (simp add: world0_def)

lemma py_int_words:
  "py_int (PStr ''all'') = Inl (ValueError_int ''all'')
   \<and> py_int (PStr ''week'') = Inl (ValueError_int ''week'')
   \<and> py_int (PStr ''yes'') = Inl (ValueError_int ''yes'')"
  by code_simp

lemma list_files_world0:
  "list_files world0 ''xoxp'' (PInt 30) (PInt 1000) = Inr files0"
  by (simp add: list_files_def calculate_days_def files0_def) (simp add: world0_def)

theorem no_validation_witness:
  "main world0 request_bad_count = Inl (ValueError_int ''all'')
   \<and> main world0 request_bad_days = Inl (ValueError_int ''week'')
   \<and> main world0 request_bad_flag =
        Inr (''[i] '' @ ts_title world0 @ '' Deleting files older than 30 days<br><br>''
             @ ''[i] '' @ ts_found world0 @ '' Found 3 files in ''
             @ mb_str world0 3670016 @ '' MB<br><br>''
             @ ''<br><br>invalid literal for int() with base 10: 'yes'<br><br>''
             @ nl_to_br (summary_line world0 3670016 3 0 0))
   \<and> requests (delete_run world0 ''xoxp'' files0 (PStr ''yes'') 3670016 3) = []"
proof -
  note a = check_args_bad_count [THEN conjunct1]
    check_args_bad_count [THEN conjunct2, THEN conjunct1]
    check_args_bad_count [THEN conjunct2, THEN conjunct2]
  note b = check_args_bad_days [THEN conjunct1]
    check_args_bad_days [THEN conjunct2, THEN conjunct1]
    check_args_bad_days [THEN conjunct2, THEN conjunct2]
  note c = check_args_bad_flag [THEN conjunct1]
    check_args_bad_flag [THEN conjunct2, THEN conjunct1]
    check_args_bad_flag [THEN conjunct2, THEN conjunct2]
  have n: "int (length files0) = 3 \<and> sum_list (map f_size files0) = 3670016"
    by (simp add: files0_eq)
  have s: "str_int 3 = ''3'' \<and> str_int 30 = ''30''" by code_simp
  have m: "nl_to_br (builtin_msg world0 (ValueError_int ''yes''))
             = ''invalid literal for int() with base 10: '' @ [CHR 0x27] @ ''yes'' @ [CHR 0x27]"
    by (simp add: world0_def nl_to_br_def)
  have r1: "main world0 request_bad_count = Inl (ValueError_int ''all'')"
    using no_validation [OF a secret_world0] py_int_words by blast
  have r2: "main world0 request_bad_days = Inl (ValueError_int ''week'')"
    using no_validation [OF b secret_world0] py_int_words by auto
  note r3 = no_validation [OF c secret_world0, THEN conjunct2, THEN conjunct2,
      THEN conjunct2, THEN conjunct2, rule_format, of "ValueError_int ''yes''" files0]
  have r3': "py_int (PStr ''yes'') = Inl (ValueError_int ''yes'')
      \<and> list_files world0 ''xoxp'' (PInt 30) (PInt 1000) = Inr files0"
    using py_int_words list_files_world0 by simp
  show ?thesis
    using r1 r2 r3 [OF r3'] by (simp add: n s m)
qed

text \<open>
  C8, as stated, fails for \<open>just_a_test\<close>: the value \<open>yes\<close> is no number, \<open>check_arg\<close>
  gives it back as it is, and the invocation does not fail: \<open>main\<close> returns its page.
\<close>

theorem bad_flag_does_not_fail:
  "check_arg ''just_a_test'' request_bad_flag (PInt 1) = Inr (PStr ''yes'')
   \<and> py_int (PStr ''yes'') = Inl (ValueError_int ''yes'')
   \<and> main world0 request_bad_flag =
        Inr ''[i] 2020-01-01 10:00:00 Deleting files older than 30 days<br><br>[i] 2020-01-01 10:00:01 Found 3 files in 3.50 MB<br><br><br><br>invalid literal for int() with base 10: 'yes'<br><br>[i] 2020-01-01 10:00:02 Attempted to delete 3.50 MB in 3 files, actually deleted 0 files sized 0.00 MB''"
  by code_simp

end
